theory Spec2Isabelle
  imports Complex_Main "HOL-Library.FSet" "HOL-Library.Multiset"
begin

section \<open>The game state of \<open>useGameState.ts\<close>\<close>

text \<open>
  \<open>types.ts\<close>: \<open>GameStatus = 'playing' | 'finished'\<close> and the interface
  \<open>GameState\<close>. A JavaScript \<open>Set<string>\<close> is a finite set of strings, the
  nullable \<open>lastWrongId\<close> is an option, \<open>Date.now()\<close> yields an integer number of
  milliseconds, counters and indices are natural numbers.
\<close>

datatype GameStatus = Playing | Finished

record GameState =
  completed :: "string fset"
  skipped :: "string fset"
  wrongClicks :: nat
  currentTargetId :: string
  status :: GameStatus
  lastWrongId :: "string option"
  lastWrongTimestamp :: int
  countryOrder :: "string list"
  currentIndex :: nat

text \<open>
  Reading \<open>array[i]\<close> in JavaScript: \<open>undefined\<close> (here \<open>None\<close>) outside the
  array.
\<close>

definition elem_at :: "'a list \<Rightarrow> nat \<Rightarrow> 'a option" where
  "elem_at xs i = (if i < length xs then Some (xs ! i) else None)"

subsection \<open>\<open>shuffleArray\<close>\<close>

text \<open>
  The Fisher-Yates loop \<open>for (let i = shuffled.length - 1; i > 0; i--)\<close>. The source of
  randomness is explicit: \<open>rnd k\<close> is what the \<open>k\<close>-th call of \<open>Math.random()\<close>
  returns, and \<open>math_random rnd\<close> says that every such value lies in \<open>[0, 1)\<close>, which
  is the contract of \<open>Math.random\<close>. The second argument of the loop counts the calls
  made so far, the third is the loop variable \<open>i\<close>.
\<close>

definition math_random :: "(nat \<Rightarrow> real) \<Rightarrow> bool" where
  "math_random rnd = (\<forall>k. 0 \<le> rnd k \<and> rnd k < 1)"

fun shuffle_loop :: "(nat \<Rightarrow> real) \<Rightarrow> nat \<Rightarrow> nat \<Rightarrow> 'a list \<Rightarrow> 'a list" where
  "shuffle_loop rnd k 0 shuffled = shuffled"
| "shuffle_loop rnd k (Suc i') shuffled =
     (let i = Suc i';
          j = nat \<lfloor>rnd k * real (i + 1)\<rfloor>
      in shuffle_loop rnd (Suc k) i' (shuffled[i := shuffled ! j, j := shuffled ! i]))"

text \<open>
  For the empty array \<open>shuffled.length - 1\<close> is \<open>-1\<close> and the loop body never runs; the
  truncated subtraction on \<open>nat\<close> gives \<open>0\<close>, for which it does not run either.
\<close>

definition shuffleArray :: "(nat \<Rightarrow> real) \<Rightarrow> 'a list \<Rightarrow> 'a list" where
  "shuffleArray rnd array = shuffle_loop rnd 0 (length array - 1) array"

subsection \<open>\<open>createInitialState\<close>\<close>

text \<open>
  \<open>shuffled[0] || ''\<close> is the empty string when the array is empty (\<open>undefined\<close> is
  falsy) and \<open>shuffled[0]\<close> otherwise (a falsy \<open>shuffled[0]\<close> is itself the empty
  string). The status is \<open>'playing'\<close> whatever the list is.
\<close>

definition createInitialState :: "(nat \<Rightarrow> real) \<Rightarrow> string list \<Rightarrow> GameState" where
  "createInitialState rnd countryIds =
     (let shuffled = shuffleArray rnd countryIds
      in \<lparr> completed = {||},
           skipped = {||},
           wrongClicks = 0,
           currentTargetId = (case elem_at shuffled 0 of None \<Rightarrow> '''' | Some x \<Rightarrow> x),
           status = Playing,
           lastWrongId = None,
           lastWrongTimestamp = 0,
           countryOrder = shuffled,
           currentIndex = 0 \<rparr>)"

subsection \<open>\<open>handleCountryClick\<close>, \<open>skipCountry\<close>, \<open>resetGame\<close>\<close>

text \<open>
  The state updaters passed to \<open>setState\<close>, as functions from the previous state to the
  next. \<open>now\<close> is the value \<open>Date.now()\<close> returns at the click. In both updaters
  \<open>prev.countryOrder[nextIndex]\<close> is read only when \<open>nextIndex\<close> is below the length.
\<close>

definition handleCountryClick :: "int \<Rightarrow> string \<Rightarrow> GameState \<Rightarrow> GameState" where
  "handleCountryClick now countryId prev =
     (if status prev = Finished then prev
      else if countryId |\<in>| completed prev then prev
      else if countryId = currentTargetId prev then
        (let newCompleted = finsert countryId (completed prev);
             nextIndex = currentIndex prev + 1;
             isFinished = (nextIndex \<ge> length (countryOrder prev))
         in prev\<lparr> completed := newCompleted,
                  currentIndex := nextIndex,
                  currentTargetId := (if isFinished then '''' else countryOrder prev ! nextIndex),
                  status := (if isFinished then Finished else Playing),
                  lastWrongId := None \<rparr>)
      else prev\<lparr> wrongClicks := wrongClicks prev + 1,
                 lastWrongId := Some countryId,
                 lastWrongTimestamp := now \<rparr>)"

definition skipCountry :: "GameState \<Rightarrow> GameState" where
  "skipCountry prev =
     (if status prev = Finished then prev
      else
        (let newSkipped = finsert (currentTargetId prev) (skipped prev);
             nextIndex = currentIndex prev + 1;
             isFinished = (nextIndex \<ge> length (countryOrder prev))
         in prev\<lparr> skipped := newSkipped,
                  currentIndex := nextIndex,
                  currentTargetId := (if isFinished then '''' else countryOrder prev ! nextIndex),
                  status := (if isFinished then Finished else Playing),
                  lastWrongId := None \<rparr>))"

definition resetGame :: "(nat \<Rightarrow> real) \<Rightarrow> string list \<Rightarrow> GameState \<Rightarrow> GameState" where
  "resetGame rnd countryIds prev = createInitialState rnd countryIds"

subsection \<open>Runs of the state machine\<close>

text \<open>
  The states a session can be in: the initial state, followed by any sequence of clicks
  (each with its clock reading and the clicked id) and skips.
\<close>

datatype action = Click int string | Skip

fun step :: "GameState \<Rightarrow> action \<Rightarrow> GameState" where
  "step s (Click now countryId) = handleCountryClick now countryId s"
| "step s Skip = skipCountry s"

definition run :: "(nat \<Rightarrow> real) \<Rightarrow> string list \<Rightarrow> action list \<Rightarrow> GameState" where
  "run rnd countryIds acts = foldl step (createInitialState rnd countryIds) acts"

subsection \<open>The clock of a session\<close>

text \<open>
  The clock readings of a session, in the order of its clicks. \<open>Date.now()\<close> counts
  milliseconds from the epoch, and the timestamp of the initial state is \<open>0\<close>: the clock
  has not been set back during a session when its readings, preceded by that \<open>0\<close>, never
  decrease.
\<close>

fun clock_readings :: "action list \<Rightarrow> int list" where
  "clock_readings [] = []"
| "clock_readings (Click now countryId # acts) = now # clock_readings acts"
| "clock_readings (Skip # acts) = clock_readings acts"

definition clock_not_set_back :: "action list \<Rightarrow> bool" where
  "clock_not_set_back acts = sorted (0 # clock_readings acts)"

subsection \<open>The operations with every array read checked\<close>









subsection \<open>The history list of \<open>App.tsx\<close>\<close>

text \<open>
  \<open>types.ts\<close>: a \<open>Country\<close> has an \<open>id\<close> and a \<open>name\<close>. In \<open>useGameState\<close> the
  list \<open>countries\<close> is derived from the loaded features, \<open>countryMap\<close> is filled by
  \<open>map.set(country.id, country)\<close> in list order (a later entry replaces an earlier one
  with the same id), \<open>countryIds\<close> is \<open>countries.map(c => c.id)\<close> and
  \<open>getCountryById\<close> is \<open>countryMap.get\<close>.
\<close>

record Country =
  country_id :: string
  country_name :: string

record CompletedCountry = Country +
  wasSkipped :: bool

definition countryMap :: "Country list \<Rightarrow> (string \<rightharpoonup> Country)" where
  "countryMap countries = fold (\<lambda>country m. m(country_id country \<mapsto> country)) countries Map.empty"

definition countryIds_of :: "Country list \<Rightarrow> string list" where
  "countryIds_of countries = map country_id countries"

definition getCountryById :: "Country list \<Rightarrow> string \<Rightarrow> Country option" where
  "getCountryById countries i = countryMap countries i"

text \<open>
  \<open>completedCountries\<close>: the loop \<open>for (let i = 0; i < game.currentIndex; i++)\<close>
  pushes an entry for \<open>game.countryOrder[i]\<close> when \<open>getCountryById\<close> finds a country
  for it; an index outside the array reads \<open>undefined\<close>, for which nothing is found.
\<close>

definition completedCountries :: "Country list \<Rightarrow> GameState \<Rightarrow> CompletedCountry list" where
  "completedCountries countries game =
     concat (map (\<lambda>i.
        case elem_at (countryOrder game) i of
          None \<Rightarrow> []
        | Some ident \<Rightarrow>
            (case getCountryById countries ident of
               None \<Rightarrow> []
             | Some country \<Rightarrow>
                 [\<lparr> country_id = country_id country,
                    country_name = country_name country,
                    wasSkipped = (ident |\<in>| skipped game) \<rparr>]))
        [0 ..< currentIndex game])"

subsection \<open>Invariants of a session\<close>

text \<open>
  While playing, the cursor is inside the play order and the stored target is the entry
  under the cursor; once finished, the cursor is the length of the play order.
\<close>

definition progress_inv :: "GameState \<Rightarrow> bool" where
  "progress_inv s =
     ((status s = Playing \<and> currentIndex s < length (countryOrder s)
         \<and> currentTargetId s = countryOrder s ! currentIndex s)
      \<or> (status s = Finished \<and> currentIndex s = length (countryOrder s)))"

text \<open>
  The ids already passed are the entries of the play order before the cursor, each either
  completed or skipped.
\<close>

definition history_inv :: "GameState \<Rightarrow> bool" where
  "history_inv s =
     (distinct (countryOrder s)
      \<and> completed s |\<union>| skipped s = fset_of_list (take (currentIndex s) (countryOrder s))
      \<and> completed s |\<inter>| skipped s = {||})"

text \<open>
  With no region ids the session is either still in its initial position or has made its
  single move.
\<close>

definition empty_inv :: "GameState \<Rightarrow> bool" where
  "empty_inv s =
     (countryOrder s = []
      \<and> ((status s = Playing \<and> currentIndex s = 0 \<and> completed s = {||} \<and> skipped s = {||}
            \<and> currentTargetId s = '''')
          \<or> (status s = Finished \<and> fcard (completed s) + fcard (skipped s) = currentIndex s)))"

text \<open>
  The catalog of the concrete scenario: region \<open>"4"\<close> named Alpha and region \<open>"8"\<close>
  named Beta.
\<close>

definition catalog_48 :: "Country list" where
  "catalog_48 = [\<lparr> country_id = ''4'', country_name = ''Alpha'' \<rparr>,
                 \<lparr> country_id = ''8'', country_name = ''Beta'' \<rparr>]"

text \<open>A source of randomness that always returns \<open>0\<close>, for concrete runs.\<close>

definition rnd_zero :: "nat \<Rightarrow> real" where
  "rnd_zero k = 0"

section \<open>Initialisation\<close>

lemma math_random_rnd_zero: "math_random rnd_zero"
  by (simp add: math_random_def rnd_zero_def)

lemma shuffleArray_Nil: "shuffleArray rnd [] = []"
  by (simp add: shuffleArray_def)

text \<open>
  C1 (as the code has it): initialising with no region ids gives an empty play order and
  the empty string as target, and the status is \<open>Playing\<close>, not \<open>Finished\<close>.
\<close>

theorem createInitialState_empty:
  "status (createInitialState rnd []) = Playing
   \<and> countryOrder (createInitialState rnd []) = []
   \<and> currentIndex (createInitialState rnd []) = 0
   \<and> currentTargetId (createInitialState rnd []) = ''''"
  by (simp add: createInitialState_def Let_def shuffleArray_Nil elem_at_def)

text \<open>
  C1 (as stated) fails: the state made from the empty list is not \<open>Finished\<close>.
\<close>

theorem createInitialState_empty_not_finished:
  "status (createInitialState rnd_zero []) \<noteq> Finished"
  by (simp add: createInitialState_def Let_def)

subsection \<open>The shuffle is a permutation\<close>

lemma random_index_le:
  assumes "0 \<le> r" "r < 1"
  shows "nat \<lfloor>r * real (Suc i)\<rfloor> \<le> i"
proof -
  have "r * real (Suc i) < real (Suc i)" using assms by simp
  then have "\<lfloor>r * real (Suc i)\<rfloor> < int (Suc i)" by (simp add: floor_less_iff)
  then show ?thesis by simp
qed

lemma shuffle_loop_length: "length (shuffle_loop rnd k i xs) = length xs"
  by (induction i arbitrary: k xs) (simp_all add: Let_def)

lemma shuffle_loop_mset:
  assumes "math_random rnd"
  shows "i < length xs \<Longrightarrow> mset (shuffle_loop rnd k i xs) = mset xs"
proof (induction i arbitrary: k xs)
  case 0
  show ?case by simp
next
  case (Suc i)
  let ?j = "nat \<lfloor>rnd k * real (Suc i + 1)\<rfloor>"
  have "?j \<le> Suc i"
    using assms random_index_le [of "rnd k" "Suc i"] by (simp add: math_random_def)
  with Suc.prems have j: "?j < length xs" by simp
  let ?ys = "xs[Suc i := xs ! ?j, ?j := xs ! Suc i]"
  have "mset ?ys = mset xs" using Suc.prems j by (simp add: mset_swap)
  moreover have "mset (shuffle_loop rnd (Suc k) i ?ys) = mset ?ys"
    using Suc.prems by (intro Suc.IH) simp
  ultimately show ?case by (simp add: Let_def)
qed

lemma shuffleArray_length: "length (shuffleArray rnd xs) = length xs"
  by (simp add: shuffleArray_def shuffle_loop_length)

lemma shuffleArray_mset:
  assumes "math_random rnd"
  shows "mset (shuffleArray rnd xs) = mset xs"
proof (cases xs)
  case Nil
  then show ?thesis by (simp add: shuffleArray_def)
next
  case (Cons x ys)
  then show ?thesis using assms by (simp add: shuffleArray_def shuffle_loop_mset)
qed

lemma shuffle_48: "shuffleArray rnd_zero [''4'', ''8''] = [''8'', ''4'']"
  by (simp add: shuffleArray_def rnd_zero_def Let_def)

text \<open>
  C4: for a non-empty list of region ids and a random source within \<open>[0, 1)\<close>, the play
  order of the initial state is a permutation of the ids (same multiset, same length), the
  cursor is \<open>0\<close>, \<open>completed\<close> and \<open>skipped\<close> are empty, there are no wrong clicks and no
  last wrong id, and the status is \<open>Playing\<close>.
\<close>

theorem createInitialState_nonempty:
  assumes "countryIds \<noteq> []" and "math_random rnd"
  shows "mset (countryOrder (createInitialState rnd countryIds)) = mset countryIds
    \<and> length (countryOrder (createInitialState rnd countryIds)) = length countryIds
    \<and> currentIndex (createInitialState rnd countryIds) = 0
    \<and> completed (createInitialState rnd countryIds) = {||}
    \<and> skipped (createInitialState rnd countryIds) = {||}
    \<and> wrongClicks (createInitialState rnd countryIds) = 0
    \<and> lastWrongId (createInitialState rnd countryIds) = None
    \<and> status (createInitialState rnd countryIds) = Playing"
  using assms by (simp add: createInitialState_def Let_def shuffleArray_mset shuffleArray_length)

theorem createInitialState_nonempty_witness:
  "[''4'', ''8''] \<noteq> [] \<and> math_random rnd_zero
   \<and> countryOrder (createInitialState rnd_zero [''4'', ''8'']) = [''8'', ''4'']
   \<and> mset (countryOrder (createInitialState rnd_zero [''4'', ''8''])) = mset [''4'', ''8'']
   \<and> status (createInitialState rnd_zero [''4'', ''8'']) = Playing"
  using createInitialState_nonempty [of "[''4'', ''8'']" rnd_zero] math_random_rnd_zero
  by (simp add: createInitialState_def Let_def shuffle_48)

section \<open>Concrete sessions\<close>

text \<open>
  With the random source \<open>rnd_zero\<close> the list \<open>["4", "8"]\<close> is shuffled to
  \<open>["8", "4"]\<close>.
\<close>

lemma run_48_correct:
  "run rnd_zero [''4'', ''8''] [Click 10 ''4'', Click 20 ''8'', Click 30 ''4'']
   = \<lparr> completed = {|''4'', ''8''|}, skipped = {||}, wrongClicks = 1, currentTargetId = '''',
       status = Finished, lastWrongId = None, lastWrongTimestamp = 10,
       countryOrder = [''8'', ''4''], currentIndex = 2 \<rparr>"
  by (simp add: run_def createInitialState_def shuffle_48 elem_at_def handleCountryClick_def Let_def)

lemma run_48_skip:
  "run rnd_zero [''4'', ''8''] [Click 10 ''4'', Click 20 ''8'', Skip]
   = \<lparr> completed = {|''8''|}, skipped = {|''4''|}, wrongClicks = 1, currentTargetId = '''',
       status = Finished, lastWrongId = None, lastWrongTimestamp = 10,
       countryOrder = [''8'', ''4''], currentIndex = 2 \<rparr>"
  by (simp add: run_def createInitialState_def shuffle_48 elem_at_def handleCountryClick_def
      skipCountry_def Let_def)

lemma run_empty:
  "run rnd [] []
   = \<lparr> completed = {||}, skipped = {||}, wrongClicks = 0, currentTargetId = '''',
       status = Playing, lastWrongId = None, lastWrongTimestamp = 0,
       countryOrder = [], currentIndex = 0 \<rparr>"
  by (simp add: run_def createInitialState_def shuffleArray_Nil elem_at_def Let_def)

lemma run_empty_skip:
  "run rnd [] [Skip]
   = \<lparr> completed = {||}, skipped = {|''''|}, wrongClicks = 0, currentTargetId = '''',
       status = Finished, lastWrongId = None, lastWrongTimestamp = 0,
       countryOrder = [], currentIndex = 1 \<rparr>"
  by (simp add: run_def createInitialState_def shuffleArray_Nil elem_at_def skipCountry_def Let_def)

section \<open>Status and cursor\<close>

lemma step_countryOrder: "countryOrder (step s a) = countryOrder s"
  by (cases a) (simp_all add: handleCountryClick_def skipCountry_def Let_def)

lemma foldl_step_countryOrder: "countryOrder (foldl step s acts) = countryOrder s"
  by (induction acts arbitrary: s) (simp_all add: step_countryOrder)

lemma run_countryOrder: "countryOrder (run rnd ids acts) = shuffleArray rnd ids"
  by (simp add: run_def foldl_step_countryOrder createInitialState_def Let_def)

lemma progress_inv_click: "progress_inv s \<Longrightarrow> progress_inv (handleCountryClick now c s)"
  by (auto simp: progress_inv_def handleCountryClick_def Let_def)

lemma progress_inv_skip: "progress_inv s \<Longrightarrow> progress_inv (skipCountry s)"
  by (auto simp: progress_inv_def skipCountry_def Let_def)

lemma progress_inv_step: "progress_inv s \<Longrightarrow> progress_inv (step s a)"
  by (cases a) (simp_all add: progress_inv_click progress_inv_skip)

lemma progress_inv_foldl: "progress_inv s \<Longrightarrow> progress_inv (foldl step s acts)"
  by (induction acts arbitrary: s) (simp_all add: progress_inv_step)

lemma shuffleArray_eq_Nil: "(shuffleArray rnd xs = []) = (xs = [])"
  using shuffleArray_length [of rnd xs] by (metis length_0_conv)

lemma progress_inv_init:
  "countryIds \<noteq> [] \<Longrightarrow> progress_inv (createInitialState rnd countryIds)"
  by (simp add: progress_inv_def createInitialState_def Let_def elem_at_def shuffleArray_length
      shuffleArray_eq_Nil)

lemma progress_inv_run: "countryIds \<noteq> [] \<Longrightarrow> progress_inv (run rnd countryIds acts)"
  by (simp add: run_def progress_inv_foldl progress_inv_init)

lemma progress_inv_le: "progress_inv s \<Longrightarrow> currentIndex s \<le> length (countryOrder s)"
  by (auto simp: progress_inv_def)

text \<open>
  C2 (amended): when the list of region ids is not empty, in every state reached from the
  initial state by clicks and skips the status is \<open>Finished\<close> if and only if the cursor
  equals the length of the play order.
\<close>

theorem finished_iff_cursor_at_end:
  assumes "countryIds \<noteq> []" and "math_random rnd"
  shows "(status (run rnd countryIds acts) = Finished)
     = (currentIndex (run rnd countryIds acts) = length (countryOrder (run rnd countryIds acts)))"
  using progress_inv_run [OF assms(1), of rnd acts] by (auto simp: progress_inv_def)

theorem finished_iff_cursor_at_end_witness:
  "[''4'', ''8''] \<noteq> [] \<and> math_random rnd_zero
   \<and> status (run rnd_zero [''4'', ''8''] [Click 10 ''4'', Click 20 ''8'', Click 30 ''4'']) = Finished
   \<and> currentIndex (run rnd_zero [''4'', ''8''] [Click 10 ''4'', Click 20 ''8'', Click 30 ''4''])
      = length (countryOrder (run rnd_zero [''4'', ''8''] [Click 10 ''4'', Click 20 ''8'', Click 30 ''4'']))"
  using finished_iff_cursor_at_end [of "[''4'', ''8'']" rnd_zero
      "[Click 10 ''4'', Click 20 ''8'', Click 30 ''4'']"] math_random_rnd_zero
  by (simp add: run_48_correct)

text \<open>
  C2 (as stated) fails for the empty list of region ids: the initial state is \<open>Playing\<close>
  although its cursor equals the length of its play order.
\<close>

theorem empty_playing_at_end:
  "status (run rnd_zero [] []) = Playing
   \<and> currentIndex (run rnd_zero [] []) = length (countryOrder (run rnd_zero [] []))"
  by (simp add: run_empty)

section \<open>The passed prefix of the play order\<close>

lemma nth_notin_take:
  assumes "distinct xs" and "i < length xs"
  shows "xs ! i \<notin> set (take i xs)"
proof
  assume "xs ! i \<in> set (take i xs)"
  then obtain k where k: "k < length (take i xs)" "take i xs ! k = xs ! i"
    by (auto simp: in_set_conv_nth)
  then have "k < i" "xs ! k = xs ! i" using assms(2) by simp_all
  with assms show False by (simp add: nth_eq_iff_index_eq)
qed

lemma fset_take_Suc:
  "i < length xs \<Longrightarrow> fset_of_list (take (Suc i) xs) = finsert (xs ! i) (fset_of_list (take i xs))"
  by (simp add: take_Suc_conv_app_nth)

lemma target_fresh:
  assumes "history_inv s" and "currentIndex s < length (countryOrder s)"
  shows "countryOrder s ! currentIndex s |\<notin>| completed s"
    and "countryOrder s ! currentIndex s |\<notin>| skipped s"
proof -
  let ?t = "countryOrder s ! currentIndex s"
  have "?t |\<notin>| fset_of_list (take (currentIndex s) (countryOrder s))"
    using assms nth_notin_take [of "countryOrder s" "currentIndex s"]
    by (simp add: history_inv_def fset_of_list_elem)
  then have "?t |\<notin>| completed s |\<union>| skipped s"
    using assms(1) by (simp add: history_inv_def)
  then show "?t |\<notin>| completed s" and "?t |\<notin>| skipped s" by simp_all
qed

lemma history_inv_click:
  assumes "progress_inv s" and "history_inv s"
  shows "history_inv (handleCountryClick now c s)"
proof (cases "status s \<noteq> Finished \<and> c |\<notin>| completed s \<and> c = currentTargetId s")
  case False
  then show ?thesis using assms(2)
    by (auto simp: handleCountryClick_def history_inv_def)
next
  case True
  with assms(1) have idx: "currentIndex s < length (countryOrder s)"
    and c: "c = countryOrder s ! currentIndex s"
    by (auto simp: progress_inv_def)
  have "c |\<notin>| skipped s" using target_fresh(2) [OF assms(2) idx] c by simp
  then have "finsert c (completed s) |\<inter>| skipped s = {||}"
    using assms(2) by (auto simp: history_inv_def)
  moreover have "finsert c (completed s) |\<union>| skipped s
      = fset_of_list (take (Suc (currentIndex s)) (countryOrder s))"
    using assms(2) c by (simp add: fset_take_Suc [OF idx] history_inv_def)
  ultimately show ?thesis using True assms(2)
    by (simp add: handleCountryClick_def history_inv_def Let_def)
qed

lemma history_inv_skip:
  assumes "progress_inv s" and "history_inv s"
  shows "history_inv (skipCountry s)"
proof (cases "status s = Finished")
  case True
  then show ?thesis using assms(2) by (simp add: skipCountry_def)
next
  case False
  with assms(1) have idx: "currentIndex s < length (countryOrder s)"
    and t: "currentTargetId s = countryOrder s ! currentIndex s"
    by (auto simp: progress_inv_def)
  have "currentTargetId s |\<notin>| completed s" using target_fresh(1) [OF assms(2) idx] t by simp
  then have "completed s |\<inter>| finsert (currentTargetId s) (skipped s) = {||}"
    using assms(2) by (auto simp: history_inv_def)
  moreover have "completed s |\<union>| finsert (currentTargetId s) (skipped s)
      = fset_of_list (take (Suc (currentIndex s)) (countryOrder s))"
    using assms(2) t by (simp add: fset_take_Suc [OF idx] history_inv_def)
  ultimately show ?thesis using False assms(2)
    by (simp add: skipCountry_def history_inv_def Let_def)
qed

lemma both_inv_foldl:
  "progress_inv s \<Longrightarrow> history_inv s
   \<Longrightarrow> progress_inv (foldl step s acts) \<and> history_inv (foldl step s acts)"
proof (induction acts arbitrary: s)
  case Nil
  then show ?case by simp
next
  case (Cons a acts)
  have "progress_inv (step s a)" using Cons.prems(1) by (rule progress_inv_step)
  moreover have "history_inv (step s a)"
    using Cons.prems by (cases a) (simp_all add: history_inv_click history_inv_skip)
  ultimately show ?case using Cons.IH by simp
qed

lemma shuffleArray_distinct:
  assumes "math_random rnd" and "distinct xs"
  shows "distinct (shuffleArray rnd xs)"
  using shuffleArray_mset [OF assms(1), of xs] assms(2) by (metis mset_eq_imp_distinct_iff)

lemma history_inv_init:
  assumes "math_random rnd" and "distinct countryIds"
  shows "history_inv (createInitialState rnd countryIds)"
  using shuffleArray_distinct [OF assms]
  by (simp add: history_inv_def createInitialState_def Let_def)

lemma history_inv_run:
  assumes "countryIds \<noteq> []" and "math_random rnd" and "distinct countryIds"
  shows "history_inv (run rnd countryIds acts)"
  using both_inv_foldl [OF progress_inv_init [OF assms(1)] history_inv_init [OF assms(2,3)]]
  by (simp add: run_def)

lemma history_inv_fcard:
  assumes "history_inv s" and "currentIndex s \<le> length (countryOrder s)"
  shows "fcard (completed s) + fcard (skipped s) = currentIndex s"
proof -
  have dis: "completed s |\<inter>| skipped s = {||}"
    and un: "completed s |\<union>| skipped s = fset_of_list (take (currentIndex s) (countryOrder s))"
    and d: "distinct (take (currentIndex s) (countryOrder s))"
    using assms(1) by (simp_all add: history_inv_def)
  have "fcard (completed s) + fcard (skipped s) = fcard (completed s |\<union>| skipped s)"
    using dis by (rule fcard_funion_disjoint [symmetric])
  also have "\<dots> = card (set (take (currentIndex s) (countryOrder s)))"
    unfolding un by (simp add: fcard.rep_eq fset_of_list.rep_eq)
  also have "\<dots> = length (take (currentIndex s) (countryOrder s))"
    using d by (rule distinct_card)
  finally show ?thesis using assms(2) by simp
qed

lemma empty_inv_step: "empty_inv s \<Longrightarrow> empty_inv (step s a)"
  by (cases a) (auto simp: empty_inv_def handleCountryClick_def skipCountry_def Let_def fcard_finsert_if)

lemma empty_inv_foldl: "empty_inv s \<Longrightarrow> empty_inv (foldl step s acts)"
  by (induction acts arbitrary: s) (simp_all add: empty_inv_step)

lemma empty_inv_init: "empty_inv (createInitialState rnd [])"
  by (simp add: empty_inv_def createInitialState_def Let_def shuffleArray_Nil elem_at_def)

lemma empty_inv_run: "empty_inv (run rnd [] acts)"
  unfolding run_def using empty_inv_init by (rule empty_inv_foldl)

lemma empty_inv_fcard: "empty_inv s \<Longrightarrow> fcard (completed s) + fcard (skipped s) = currentIndex s"
  by (auto simp: empty_inv_def)

text \<open>
  C3: the region ids given to the initialiser form a set, that is, a list without
  duplicates. In every state reached from the initial state by clicks and skips the sizes
  of \<open>completed\<close> and \<open>skipped\<close> add up to the cursor; this includes the empty set of
  ids.
\<close>

theorem sizes_sum_to_cursor:
  assumes "distinct countryIds" and "math_random rnd"
  shows "fcard (completed (run rnd countryIds acts)) + fcard (skipped (run rnd countryIds acts))
     = currentIndex (run rnd countryIds acts)"
proof (cases "countryIds = []")
  case True
  then show ?thesis using empty_inv_fcard [OF empty_inv_run] by simp
next
  case False
  show ?thesis
    using history_inv_run [OF False assms(2,1)] progress_inv_run [OF False]
    by (intro history_inv_fcard progress_inv_le)
qed

theorem sizes_sum_to_cursor_witness:
  "distinct [''4'', ''8''] \<and> math_random rnd_zero
   \<and> fcard (completed (run rnd_zero [''4'', ''8''] [Click 10 ''4'', Click 20 ''8'', Skip]))
      + fcard (skipped (run rnd_zero [''4'', ''8''] [Click 10 ''4'', Click 20 ''8'', Skip]))
     = currentIndex (run rnd_zero [''4'', ''8''] [Click 10 ''4'', Click 20 ''8'', Skip])
   \<and> currentIndex (run rnd_zero [''4'', ''8''] [Click 10 ''4'', Click 20 ''8'', Skip]) = 2"
  using sizes_sum_to_cursor [of "[''4'', ''8'']" rnd_zero "[Click 10 ''4'', Click 20 ''8'', Skip]"]
    math_random_rnd_zero
  by (simp add: run_48_skip fcard_finsert_if fcard_fempty)

section \<open>Transitions\<close>

lemma run_48_empty:
  "run rnd_zero [''4'', ''8''] []
   = \<lparr> completed = {||}, skipped = {||}, wrongClicks = 0, currentTargetId = ''8'',
       status = Playing, lastWrongId = None, lastWrongTimestamp = 0,
       countryOrder = [''8'', ''4''], currentIndex = 0 \<rparr>"
  by (simp add: run_def createInitialState_def shuffle_48 elem_at_def Let_def)

lemma run_48_wrong:
  "run rnd_zero [''4'', ''8''] [Click 10 ''4'']
   = \<lparr> completed = {||}, skipped = {||}, wrongClicks = 1, currentTargetId = ''8'',
       status = Playing, lastWrongId = Some ''4'', lastWrongTimestamp = 10,
       countryOrder = [''8'', ''4''], currentIndex = 0 \<rparr>"
  by (simp add: run_def createInitialState_def shuffle_48 elem_at_def handleCountryClick_def Let_def)

text \<open>
  Every \<open>Playing\<close> state of a session on a non-empty list of region ids has its cursor
  inside the play order and the entry under the cursor as its stored target.
\<close>

lemma playing_run_target:
  assumes "countryIds \<noteq> []" and "status (run rnd countryIds acts) = Playing"
  shows "currentIndex (run rnd countryIds acts) < length (countryOrder (run rnd countryIds acts))
    \<and> currentTargetId (run rnd countryIds acts)
       = countryOrder (run rnd countryIds acts) ! currentIndex (run rnd countryIds acts)"
  using progress_inv_run [OF assms(1), of rnd acts] assms(2) by (auto simp: progress_inv_def)

text \<open>
  Every timestamp of a session is \<open>0\<close> or one of its clock readings; so while the
  clock is not set back, the timestamp never exceeds the reading of the next click.
\<close>

lemma clock_readings_append:
  "clock_readings (xs @ ys) = clock_readings xs @ clock_readings ys"
  by (induction xs rule: clock_readings.induct) simp_all

lemma step_timestamp:
  "lastWrongTimestamp (step s a) \<in> insert (lastWrongTimestamp s) (set (clock_readings [a]))"
  by (cases a) (simp_all add: handleCountryClick_def skipCountry_def Let_def)

lemma foldl_timestamp:
  "lastWrongTimestamp (foldl step s acts)
     \<in> insert (lastWrongTimestamp s) (set (clock_readings acts))"
proof (induction acts arbitrary: s)
  case Nil
  show ?case by simp
next
  case (Cons a acts)
  have "lastWrongTimestamp (foldl step (step s a) acts)
      \<in> insert (lastWrongTimestamp (step s a)) (set (clock_readings acts))"
    by (rule Cons.IH)
  moreover have "clock_readings (a # acts) = clock_readings [a] @ clock_readings acts"
    using clock_readings_append [of "[a]" acts] by simp
  ultimately show ?case using step_timestamp [of s a] by auto
qed

lemma run_timestamp:
  "lastWrongTimestamp (run rnd countryIds acts) \<in> set (0 # clock_readings acts)"
  using foldl_timestamp [of "createInitialState rnd countryIds" acts]
  by (simp add: run_def createInitialState_def Let_def)

lemma run_timestamp_le:
  assumes "clock_not_set_back (acts @ [Click now countryId])"
  shows "lastWrongTimestamp (run rnd countryIds acts) \<le> now"
proof -
  have "sorted ((0 # clock_readings acts) @ [now])"
    using assms by (simp add: clock_not_set_back_def clock_readings_append)
  then have "\<forall>t \<in> set (0 # clock_readings acts). t \<le> now"
    by (simp only: sorted_append) simp
  then show ?thesis using run_timestamp [of rnd countryIds acts] by blast
qed

lemma run_snoc: "run rnd countryIds (acts @ [a]) = step (run rnd countryIds acts) a"
  by (simp add: run_def)

lemma run_timestamp_mono:
  assumes "clock_not_set_back (acts @ [a])"
  shows "lastWrongTimestamp (run rnd countryIds acts)
     \<le> lastWrongTimestamp (run rnd countryIds (acts @ [a]))"
proof (cases a)
  case (Click now c)
  have "lastWrongTimestamp (run rnd countryIds acts) \<le> now"
    using assms Click by (intro run_timestamp_le [of acts now c]) simp
  then show ?thesis
    by (simp add: run_snoc Click handleCountryClick_def Let_def)
next
  case Skip
  then show ?thesis by (simp add: run_snoc skipCountry_def Let_def)
qed

text \<open>
  C5 (amended): in a \<open>Playing\<close> state whose cursor is inside the play order and whose
  target is the entry under the cursor, a click on an id that is not in \<open>completed\<close>
  and differs from that entry adds one to \<open>wrongClicks\<close>, stores the id in
  \<open>lastWrongId\<close>, stores the clock reading of the click in \<open>lastWrongTimestamp\<close>, and
  leaves cursor, \<open>completed\<close>, \<open>skipped\<close>, status, play order and target as they were.
  When the state is that of a session whose clock, this click included, has not been set
  back, the new timestamp is at least the previous one.
\<close>

theorem wrong_click_transition:
  assumes "status s = Playing"
    and "currentIndex s < length (countryOrder s)"
    and "currentTargetId s = countryOrder s ! currentIndex s"
    and "clickedId |\<notin>| completed s"
    and "clickedId \<noteq> countryOrder s ! currentIndex s"
  shows "wrongClicks (handleCountryClick now clickedId s) = wrongClicks s + 1
    \<and> lastWrongId (handleCountryClick now clickedId s) = Some clickedId
    \<and> lastWrongTimestamp (handleCountryClick now clickedId s) = now
    \<and> currentIndex (handleCountryClick now clickedId s) = currentIndex s
    \<and> completed (handleCountryClick now clickedId s) = completed s
    \<and> skipped (handleCountryClick now clickedId s) = skipped s
    \<and> status (handleCountryClick now clickedId s) = status s
    \<and> countryOrder (handleCountryClick now clickedId s) = countryOrder s
    \<and> currentTargetId (handleCountryClick now clickedId s) = currentTargetId s
    \<and> (s = run rnd countryIds acts \<and> clock_not_set_back (acts @ [Click now clickedId])
        \<longrightarrow> lastWrongTimestamp s \<le> lastWrongTimestamp (handleCountryClick now clickedId s))"
proof -
  have ts: "lastWrongTimestamp (handleCountryClick now clickedId s) = now"
    using assms by (simp add: handleCountryClick_def)
  have fields: "wrongClicks (handleCountryClick now clickedId s) = wrongClicks s + 1
    \<and> lastWrongId (handleCountryClick now clickedId s) = Some clickedId
    \<and> lastWrongTimestamp (handleCountryClick now clickedId s) = now
    \<and> currentIndex (handleCountryClick now clickedId s) = currentIndex s
    \<and> completed (handleCountryClick now clickedId s) = completed s
    \<and> skipped (handleCountryClick now clickedId s) = skipped s
    \<and> status (handleCountryClick now clickedId s) = status s
    \<and> countryOrder (handleCountryClick now clickedId s) = countryOrder s
    \<and> currentTargetId (handleCountryClick now clickedId s) = currentTargetId s"
    using assms by (simp add: handleCountryClick_def)
  have mono: "s = run rnd countryIds acts \<and> clock_not_set_back (acts @ [Click now clickedId])
      \<longrightarrow> lastWrongTimestamp s \<le> lastWrongTimestamp (handleCountryClick now clickedId s)"
    unfolding ts using run_timestamp_le [of acts now clickedId rnd countryIds] by blast
  from fields mono show ?thesis by blast
qed

theorem wrong_click_transition_witness:
  "status (run rnd_zero [''4'', ''8''] [Click 10 ''4'']) = Playing
   \<and> currentIndex (run rnd_zero [''4'', ''8''] [Click 10 ''4''])
       < length (countryOrder (run rnd_zero [''4'', ''8''] [Click 10 ''4'']))
   \<and> currentTargetId (run rnd_zero [''4'', ''8''] [Click 10 ''4''])
       = countryOrder (run rnd_zero [''4'', ''8''] [Click 10 ''4''])
           ! currentIndex (run rnd_zero [''4'', ''8''] [Click 10 ''4''])
   \<and> ''4'' |\<notin>| completed (run rnd_zero [''4'', ''8''] [Click 10 ''4''])
   \<and> ''4'' \<noteq> countryOrder (run rnd_zero [''4'', ''8''] [Click 10 ''4''])
           ! currentIndex (run rnd_zero [''4'', ''8''] [Click 10 ''4''])
   \<and> clock_not_set_back ([Click 10 ''4''] @ [Click 20 ''4''])
   \<and> wrongClicks (handleCountryClick 20 ''4'' (run rnd_zero [''4'', ''8''] [Click 10 ''4''])) = 2
   \<and> lastWrongId (handleCountryClick 20 ''4'' (run rnd_zero [''4'', ''8''] [Click 10 ''4''])) = Some ''4''
   \<and> lastWrongTimestamp (run rnd_zero [''4'', ''8''] [Click 10 ''4'']) = 10
   \<and> lastWrongTimestamp (handleCountryClick 20 ''4'' (run rnd_zero [''4'', ''8''] [Click 10 ''4''])) = 20
   \<and> lastWrongTimestamp (run rnd_zero [''4'', ''8''] [Click 10 ''4''])
       \<le> lastWrongTimestamp (handleCountryClick 20 ''4'' (run rnd_zero [''4'', ''8''] [Click 10 ''4'']))"
  using wrong_click_transition [of "run rnd_zero [''4'', ''8''] [Click 10 ''4'']" "''4''" 20
      rnd_zero "[''4'', ''8'']" "[Click 10 ''4'']"]
  by (simp add: run_48_wrong clock_not_set_back_def)

text \<open>
  C5 (as stated) fails twice. In the initial state of the empty list the status is
  \<open>Playing\<close>, nothing is under the cursor and the target is the empty string: a click on
  the empty string is taken as correct. And the new timestamp is the clock reading, which
  is below the previous timestamp when the clock has been set back.
\<close>

theorem wrong_click_fails:
  "status (run rnd_zero [] []) = Playing
   \<and> '''' |\<notin>| completed (run rnd_zero [] [])
   \<and> elem_at (countryOrder (run rnd_zero [] [])) (currentIndex (run rnd_zero [] [])) \<noteq> Some ''''
   \<and> wrongClicks (handleCountryClick 10 '''' (run rnd_zero [] [])) = wrongClicks (run rnd_zero [] [])
   \<and> completed (handleCountryClick 10 '''' (run rnd_zero [] [])) \<noteq> completed (run rnd_zero [] [])
   \<and> currentIndex (handleCountryClick 10 '''' (run rnd_zero [] [])) \<noteq> currentIndex (run rnd_zero [] [])
   \<and> status (handleCountryClick 10 '''' (run rnd_zero [] [])) \<noteq> status (run rnd_zero [] [])
   \<and> status (run rnd_zero [''4'', ''8''] [Click 10 ''4'']) = Playing
   \<and> ''4'' |\<notin>| completed (run rnd_zero [''4'', ''8''] [Click 10 ''4''])
   \<and> elem_at (countryOrder (run rnd_zero [''4'', ''8''] [Click 10 ''4'']))
         (currentIndex (run rnd_zero [''4'', ''8''] [Click 10 ''4''])) \<noteq> Some ''4''
   \<and> lastWrongTimestamp (handleCountryClick 5 ''4'' (run rnd_zero [''4'', ''8''] [Click 10 ''4'']))
       < lastWrongTimestamp (run rnd_zero [''4'', ''8''] [Click 10 ''4''])"
  by (simp add: run_empty run_48_wrong handleCountryClick_def elem_at_def Let_def)

text \<open>
  C6 (amended): in a \<open>Playing\<close> state whose cursor is inside the play order and whose
  target is the entry under the cursor, a skip adds exactly that entry to \<open>skipped\<close>,
  moves the cursor by one, clears \<open>lastWrongId\<close>, and makes the status \<open>Finished\<close>
  exactly when the new cursor equals the length of the play order; \<open>completed\<close>,
  \<open>wrongClicks\<close> and the play order stay as they were.
\<close>

theorem skip_transition:
  assumes "status s = Playing"
    and "currentIndex s < length (countryOrder s)"
    and "currentTargetId s = countryOrder s ! currentIndex s"
  shows "skipped (skipCountry s) = finsert (countryOrder s ! currentIndex s) (skipped s)
    \<and> currentIndex (skipCountry s) = currentIndex s + 1
    \<and> lastWrongId (skipCountry s) = None
    \<and> (status (skipCountry s) = Finished)
        = (currentIndex (skipCountry s) = length (countryOrder (skipCountry s)))
    \<and> completed (skipCountry s) = completed s
    \<and> wrongClicks (skipCountry s) = wrongClicks s
    \<and> countryOrder (skipCountry s) = countryOrder s"
  using assms by (auto simp: skipCountry_def Let_def)

theorem skip_transition_witness:
  "status (run rnd_zero [''4'', ''8''] [Click 10 ''4'']) = Playing
   \<and> currentIndex (run rnd_zero [''4'', ''8''] [Click 10 ''4''])
       < length (countryOrder (run rnd_zero [''4'', ''8''] [Click 10 ''4'']))
   \<and> currentTargetId (run rnd_zero [''4'', ''8''] [Click 10 ''4''])
       = countryOrder (run rnd_zero [''4'', ''8''] [Click 10 ''4''])
           ! currentIndex (run rnd_zero [''4'', ''8''] [Click 10 ''4''])
   \<and> skipped (skipCountry (run rnd_zero [''4'', ''8''] [Click 10 ''4''])) = {|''8''|}
   \<and> currentIndex (skipCountry (run rnd_zero [''4'', ''8''] [Click 10 ''4''])) = 1
   \<and> lastWrongId (skipCountry (run rnd_zero [''4'', ''8''] [Click 10 ''4''])) = None
   \<and> status (skipCountry (run rnd_zero [''4'', ''8''] [Click 10 ''4''])) = Playing"
  using skip_transition [of "run rnd_zero [''4'', ''8''] [Click 10 ''4'']"]
  by (simp add: run_48_wrong skipCountry_def Let_def)

text \<open>
  C6 (as stated) fails in the initial state of the empty list: the status is \<open>Playing\<close>,
  nothing is under the cursor, and a skip adds the empty string to \<open>skipped\<close> and
  finishes with the cursor at \<open>1\<close>, beyond the length \<open>0\<close> of the play order.
\<close>

theorem skip_fails:
  "status (run rnd_zero [] []) = Playing
   \<and> elem_at (countryOrder (run rnd_zero [] [])) (currentIndex (run rnd_zero [] [])) = None
   \<and> skipped (skipCountry (run rnd_zero [] [])) = {|''''|}
   \<and> status (skipCountry (run rnd_zero [] [])) = Finished
   \<and> currentIndex (skipCountry (run rnd_zero [] [])) = 1
   \<and> length (countryOrder (skipCountry (run rnd_zero [] []))) = 0"
  by (simp add: run_empty skipCountry_def elem_at_def Let_def)

text \<open>
  C7 (amended): a correct click, a skip and a reset all clear \<open>lastWrongId\<close>; the
  timestamp is set back to \<open>0\<close> by a reset only, a correct click and a skip keep it.
\<close>

theorem last_wrong_cleared:
  assumes "status s = Playing" and "clickedId |\<notin>| completed s"
    and "clickedId = currentTargetId s"
    and "status t = Playing"
  shows "lastWrongId (handleCountryClick now clickedId s) = None
    \<and> lastWrongTimestamp (handleCountryClick now clickedId s) = lastWrongTimestamp s
    \<and> lastWrongId (skipCountry t) = None
    \<and> lastWrongTimestamp (skipCountry t) = lastWrongTimestamp t
    \<and> lastWrongId (resetGame rnd countryIds u) = None
    \<and> lastWrongTimestamp (resetGame rnd countryIds u) = 0"
  using assms
  by (simp add: handleCountryClick_def skipCountry_def resetGame_def createInitialState_def Let_def)

theorem last_wrong_cleared_witness:
  "status (run rnd_zero [''4'', ''8''] [Click 10 ''4'']) = Playing
   \<and> ''8'' |\<notin>| completed (run rnd_zero [''4'', ''8''] [Click 10 ''4''])
   \<and> ''8'' = currentTargetId (run rnd_zero [''4'', ''8''] [Click 10 ''4''])
   \<and> lastWrongId (run rnd_zero [''4'', ''8''] [Click 10 ''4'']) = Some ''4''
   \<and> lastWrongId (handleCountryClick 20 ''8'' (run rnd_zero [''4'', ''8''] [Click 10 ''4''])) = None
   \<and> lastWrongTimestamp (handleCountryClick 20 ''8'' (run rnd_zero [''4'', ''8''] [Click 10 ''4''])) = 10
   \<and> lastWrongId (skipCountry (run rnd_zero [''4'', ''8''] [Click 10 ''4''])) = None
   \<and> lastWrongTimestamp (skipCountry (run rnd_zero [''4'', ''8''] [Click 10 ''4''])) = 10
   \<and> lastWrongId (resetGame rnd_zero [''4'', ''8''] (run rnd_zero [''4'', ''8''] [Click 10 ''4''])) = None
   \<and> lastWrongTimestamp (resetGame rnd_zero [''4'', ''8''] (run rnd_zero [''4'', ''8''] [Click 10 ''4''])) = 0"
  using last_wrong_cleared [of "run rnd_zero [''4'', ''8''] [Click 10 ''4'']" "''8''"
      "run rnd_zero [''4'', ''8''] [Click 10 ''4'']" 20 rnd_zero "[''4'', ''8'']"
      "run rnd_zero [''4'', ''8''] [Click 10 ''4'']"]
  by (simp add: run_48_wrong)

text \<open>
  C7 (as stated) fails: after a wrong click at time \<open>10\<close>, the timestamp is still
  \<open>10\<close> after the correct click, and after a skip.
\<close>

theorem timestamp_survives_correct_click:
  "lastWrongTimestamp (run rnd_zero [''4'', ''8''] [Click 10 ''4'', Click 20 ''8'']) = 10
   \<and> lastWrongTimestamp (run rnd_zero [''4'', ''8''] [Click 10 ''4'', Click 20 ''8''])
       \<noteq> lastWrongTimestamp (createInitialState rnd_zero [''4'', ''8''])
   \<and> completed (run rnd_zero [''4'', ''8''] [Click 10 ''4'', Click 20 ''8'']) = {|''8''|}
   \<and> lastWrongTimestamp (run rnd_zero [''4'', ''8''] [Click 10 ''4'', Skip]) = 10
   \<and> skipped (run rnd_zero [''4'', ''8''] [Click 10 ''4'', Skip]) = {|''8''|}"
  by (simp add: run_def createInitialState_def shuffle_48 elem_at_def handleCountryClick_def
      skipCountry_def Let_def)

section \<open>The finished state\<close>

lemma finished_foldl: "status s = Finished \<Longrightarrow> foldl step s acts = s"
proof (induction acts)
  case Nil
  show ?case by simp
next
  case (Cons a acts)
  have "step s a = s" using Cons.prems
    by (cases a) (simp_all add: handleCountryClick_def skipCountry_def)
  then show ?case using Cons by simp
qed

text \<open>
  C8: in a \<open>Finished\<close> state a click on any id and a skip return the state itself, and
  so does any sequence of clicks and skips; a reset gives a \<open>Playing\<close> state.
\<close>

theorem finished_is_terminal:
  assumes "status s = Finished"
  shows "handleCountryClick now clickedId s = s
    \<and> skipCountry s = s
    \<and> foldl step s acts = s
    \<and> status (resetGame rnd countryIds s) = Playing"
  using assms finished_foldl [OF assms, of acts]
  by (simp add: handleCountryClick_def skipCountry_def resetGame_def createInitialState_def Let_def)

theorem finished_is_terminal_witness:
  "status (run rnd_zero [''4'', ''8''] [Click 10 ''4'', Click 20 ''8'', Click 30 ''4'']) = Finished
   \<and> handleCountryClick 40 ''8'' (run rnd_zero [''4'', ''8''] [Click 10 ''4'', Click 20 ''8'', Click 30 ''4''])
       = run rnd_zero [''4'', ''8''] [Click 10 ''4'', Click 20 ''8'', Click 30 ''4'']
   \<and> skipCountry (run rnd_zero [''4'', ''8''] [Click 10 ''4'', Click 20 ''8'', Click 30 ''4''])
       = run rnd_zero [''4'', ''8''] [Click 10 ''4'', Click 20 ''8'', Click 30 ''4'']
   \<and> foldl step (run rnd_zero [''4'', ''8''] [Click 10 ''4'', Click 20 ''8'', Click 30 ''4''])
         [Click 40 ''9'', Skip, Click 50 ''8'']
       = run rnd_zero [''4'', ''8''] [Click 10 ''4'', Click 20 ''8'', Click 30 ''4'']"
  using finished_is_terminal [of "run rnd_zero [''4'', ''8''] [Click 10 ''4'', Click 20 ''8'', Click 30 ''4'']"
      40 "''8''" "[Click 40 ''9'', Skip, Click 50 ''8'']"]
  by (simp add: run_48_correct)

section \<open>Clicks on unknown ids\<close>




lemma run_set_countryOrder:
  assumes "math_random rnd"
  shows "set (countryOrder (run rnd countryIds acts)) = set countryIds"
  using mset_eq_setD [OF shuffleArray_mset [OF assms, of countryIds]]
  by (simp add: run_countryOrder)













section \<open>The history list\<close>

lemma fold_country_found:
  assumes "(\<exists>c. m i = Some c \<and> country_id c = i) \<or> i \<in> country_id ` set countries"
  shows "\<exists>c. fold (\<lambda>country m. m(country_id country \<mapsto> country)) countries m i = Some c
             \<and> country_id c = i"
  using assms
proof (induction countries arbitrary: m)
  case Nil
  then show ?case by simp
next
  case (Cons x xs)
  let ?m = "m(country_id x \<mapsto> x)"
  have "(\<exists>c. ?m i = Some c \<and> country_id c = i) \<or> i \<in> country_id ` set xs"
    using Cons.prems by auto
  then show ?case using Cons.IH [of ?m] by simp
qed

lemma getCountryById_found:
  assumes "i \<in> set (countryIds_of countries)"
  shows "\<exists>c. getCountryById countries i = Some c \<and> country_id c = i"
  using assms fold_country_found [of Map.empty i countries]
  by (simp add: getCountryById_def countryMap_def countryIds_of_def)

lemma map_concat_singletons:
  assumes "\<And>i. i \<in> set is \<Longrightarrow> \<exists>e. f i = [e] \<and> g e = h i"
  shows "map g (concat (map f is)) = map h is"
  using assms
proof (induction "is")
  case Nil
  show ?case by simp
next
  case (Cons i "is")
  obtain e where "f i = [e]" "g e = h i" using Cons.prems [of i] by auto
  moreover have "map g (concat (map f is)) = map h is"
    using Cons.prems by (intro Cons.IH) simp
  ultimately show ?case by simp
qed

lemma map_nth_upt_take: "n \<le> length xs \<Longrightarrow> map ((!) xs) [0..<n] = take n xs"
  by (metis add_0 map_nth take_map take_upt)

lemma history_entry:
  assumes "set (countryOrder s) = set (countryIds_of countries)"
    and "i < length (countryOrder s)"
  shows "\<exists>e. (case elem_at (countryOrder s) i of
          None \<Rightarrow> []
        | Some ident \<Rightarrow>
            (case getCountryById countries ident of
               None \<Rightarrow> []
             | Some country \<Rightarrow>
                 [\<lparr> country_id = country_id country,
                    country_name = country_name country,
                    wasSkipped = (ident |\<in>| skipped s) \<rparr>])) = [e]
      \<and> country_id e = countryOrder s ! i
      \<and> wasSkipped e = (countryOrder s ! i |\<in>| skipped s)"
proof -
  have "countryOrder s ! i \<in> set (countryIds_of countries)"
    using assms nth_mem [of i "countryOrder s"] by simp
  then obtain c where "getCountryById countries (countryOrder s ! i) = Some c"
    and "country_id c = countryOrder s ! i"
    using getCountryById_found by blast
  then show ?thesis using assms(2) by (simp add: elem_at_def)
qed

lemma completedCountries_ids:
  assumes "set (countryOrder s) = set (countryIds_of countries)"
    and "currentIndex s \<le> length (countryOrder s)"
  shows "map country_id (completedCountries countries s) = take (currentIndex s) (countryOrder s)"
proof -
  have "map country_id (completedCountries countries s)
      = map ((!) (countryOrder s)) [0 ..< currentIndex s]"
    unfolding completedCountries_def
  proof (rule map_concat_singletons)
    fix i assume "i \<in> set [0 ..< currentIndex s]"
    then have "i < length (countryOrder s)" using assms(2) by simp
    from history_entry [OF assms(1) this]
    show "\<exists>e. (case elem_at (countryOrder s) i of
          None \<Rightarrow> []
        | Some ident \<Rightarrow>
            (case getCountryById countries ident of
               None \<Rightarrow> []
             | Some country \<Rightarrow>
                 [\<lparr> country_id = country_id country,
                    country_name = country_name country,
                    wasSkipped = (ident |\<in>| skipped s) \<rparr>])) = [e]
      \<and> country_id e = countryOrder s ! i"
      by blast
  qed
  then show ?thesis using assms(2) by (simp add: map_nth_upt_take)
qed

lemma completedCountries_flags:
  assumes "set (countryOrder s) = set (countryIds_of countries)"
    and "currentIndex s \<le> length (countryOrder s)"
  shows "map wasSkipped (completedCountries countries s)
      = map (\<lambda>ident. ident |\<in>| skipped s) (take (currentIndex s) (countryOrder s))"
proof -
  have "map wasSkipped (completedCountries countries s)
      = map (\<lambda>i. countryOrder s ! i |\<in>| skipped s) [0 ..< currentIndex s]"
    unfolding completedCountries_def
  proof (rule map_concat_singletons)
    fix i assume "i \<in> set [0 ..< currentIndex s]"
    then have "i < length (countryOrder s)" using assms(2) by simp
    from history_entry [OF assms(1) this]
    show "\<exists>e. (case elem_at (countryOrder s) i of
          None \<Rightarrow> []
        | Some ident \<Rightarrow>
            (case getCountryById countries ident of
               None \<Rightarrow> []
             | Some country \<Rightarrow>
                 [\<lparr> country_id = country_id country,
                    country_name = country_name country,
                    wasSkipped = (ident |\<in>| skipped s) \<rparr>])) = [e]
      \<and> wasSkipped e = (countryOrder s ! i |\<in>| skipped s)"
      by blast
  qed
  also have "\<dots> = map (\<lambda>ident. ident |\<in>| skipped s) (map ((!) (countryOrder s)) [0 ..< currentIndex s])"
    by simp
  finally show ?thesis using assms(2) by (simp only: map_nth_upt_take)
qed

lemma countryIds_of_catalog_48: "countryIds_of catalog_48 = [''4'', ''8'']"
  by (simp add: countryIds_of_def catalog_48_def)

lemma completedCountries_48:
  "completedCountries catalog_48 (run rnd_zero [''4'', ''8''] [Click 10 ''4'', Click 20 ''8'', Skip])
   = [\<lparr> country_id = ''8'', country_name = ''Beta'', wasSkipped = False \<rparr>,
      \<lparr> country_id = ''4'', country_name = ''Alpha'', wasSkipped = True \<rparr>]"
  by (simp add: run_48_skip completedCountries_def getCountryById_def countryMap_def catalog_48_def
      elem_at_def upt_rec)

text \<open>
  C10 (amended): when the ids of the catalog are non-empty and duplicate-free, in every
  state reached by clicks and skips the union of \<open>completed\<close> and \<open>skipped\<close> is the set
  of the entries of the play order before the cursor, the two sets are disjoint, and the
  history list of \<open>App.tsx\<close> has exactly those entries, in order, each flagged by its
  membership in \<open>skipped\<close>.
\<close>

theorem passed_prefix:
  assumes "countryIds_of countries \<noteq> []" and "distinct (countryIds_of countries)"
    and "math_random rnd"
  shows "completed (run rnd (countryIds_of countries) acts)
         |\<union>| skipped (run rnd (countryIds_of countries) acts)
       = fset_of_list (take (currentIndex (run rnd (countryIds_of countries) acts))
                            (countryOrder (run rnd (countryIds_of countries) acts)))
    \<and> completed (run rnd (countryIds_of countries) acts)
         |\<inter>| skipped (run rnd (countryIds_of countries) acts) = {||}
    \<and> map country_id (completedCountries countries (run rnd (countryIds_of countries) acts))
       = take (currentIndex (run rnd (countryIds_of countries) acts))
              (countryOrder (run rnd (countryIds_of countries) acts))
    \<and> map wasSkipped (completedCountries countries (run rnd (countryIds_of countries) acts))
       = map (\<lambda>ident. ident |\<in>| skipped (run rnd (countryIds_of countries) acts))
           (take (currentIndex (run rnd (countryIds_of countries) acts))
              (countryOrder (run rnd (countryIds_of countries) acts)))"
proof -
  let ?s = "run rnd (countryIds_of countries) acts"
  have h: "history_inv ?s" using assms by (intro history_inv_run)
  have le: "currentIndex ?s \<le> length (countryOrder ?s)"
    using progress_inv_run [OF assms(1)] by (rule progress_inv_le)
  have st: "set (countryOrder ?s) = set (countryIds_of countries)"
    using assms(3) by (rule run_set_countryOrder)
  show ?thesis
    using h completedCountries_ids [OF st le] completedCountries_flags [OF st le]
    by (simp add: history_inv_def)
qed

theorem passed_prefix_witness:
  "countryIds_of catalog_48 \<noteq> [] \<and> distinct (countryIds_of catalog_48) \<and> math_random rnd_zero
   \<and> completed (run rnd_zero (countryIds_of catalog_48) [Click 10 ''4'', Click 20 ''8'', Skip])
       |\<union>| skipped (run rnd_zero (countryIds_of catalog_48) [Click 10 ''4'', Click 20 ''8'', Skip])
     = fset_of_list [''8'', ''4'']
   \<and> map country_id (completedCountries catalog_48
         (run rnd_zero (countryIds_of catalog_48) [Click 10 ''4'', Click 20 ''8'', Skip]))
     = [''8'', ''4'']
   \<and> map wasSkipped (completedCountries catalog_48
         (run rnd_zero (countryIds_of catalog_48) [Click 10 ''4'', Click 20 ''8'', Skip]))
     = [False, True]"
  using passed_prefix [of catalog_48 rnd_zero "[Click 10 ''4'', Click 20 ''8'', Skip]"]
    math_random_rnd_zero
  by (simp add: countryIds_of_catalog_48 run_48_skip)

text \<open>
  C10 (as stated) fails for the empty catalog, which is duplicate-free: a skip puts the
  empty string into \<open>skipped\<close>, and no entry of the play order is before the cursor.
\<close>

theorem empty_catalog_skip_outside_prefix:
  "distinct (countryIds_of [])
   \<and> skipped (run rnd_zero (countryIds_of []) [Skip]) = {|''''|}
   \<and> take (currentIndex (run rnd_zero (countryIds_of []) [Skip]))
        (countryOrder (run rnd_zero (countryIds_of []) [Skip])) = []
   \<and> completed (run rnd_zero (countryIds_of []) [Skip]) |\<union>| skipped (run rnd_zero (countryIds_of []) [Skip])
     \<noteq> fset_of_list (take (currentIndex (run rnd_zero (countryIds_of []) [Skip]))
                      (countryOrder (run rnd_zero (countryIds_of []) [Skip])))"
  by (simp add: countryIds_of_def run_empty_skip)

end
